theory Spec2Isabelle
  imports Main "HOL-Library.Sublist" "HOL-Library.AList"
begin

section \<open>JavaScript values\<close>

text \<open>
  Backend responses, request payloads and the objects handed back to the caller are
  JavaScript values. A number is an IEEE-754 double: the model has the integer-valued
  doubles (\<open>JNum n\<close> stands for the double of value \<open>n\<close>), \<^verbatim>\<open>NaN\<close> and the
  two infinities (\<open>JInf True\<close> is \<^verbatim>\<open>+Infinity\<close>); fractional numbers are outside
  it. An object is an association list read by first match; its order is the order in
  which the properties were written.
\<close>

datatype jsval =
    JUndefined
  | JNull
  | JBool bool
  | JNum int
  | JNaN
  | JInf bool
  | JStr string
  | JArr "jsval list"
  | JObj "(string \<times> jsval) list"

fun truthy :: "jsval \<Rightarrow> bool" where
  "truthy JUndefined = False"
| "truthy JNull = False"
| "truthy (JBool b) = b"
| "truthy (JNum n) = (n \<noteq> 0)"
| "truthy JNaN = False"
| "truthy (JInf pos) = True"
| "truthy (JStr s) = (s \<noteq> [])"
| "truthy (JArr xs) = True"
| "truthy (JObj kvs) = True"

fun typeof :: "jsval \<Rightarrow> string" where
  "typeof JUndefined = ''undefined''"
| "typeof JNull = ''object''"
| "typeof (JBool b) = ''boolean''"
| "typeof (JNum n) = ''number''"
| "typeof JNaN = ''number''"
| "typeof (JInf pos) = ''number''"
| "typeof (JStr s) = ''string''"
| "typeof (JArr xs) = ''object''"
| "typeof (JObj kvs) = ''object''"

fun isArray :: "jsval \<Rightarrow> bool" where
  "isArray (JArr xs) = True"
| "isArray v = False"

fun elems :: "jsval \<Rightarrow> jsval list" where
  "elems (JArr xs) = xs"
| "elems v = []"

fun nullish :: "jsval \<Rightarrow> bool" where
  "nullish JUndefined = True"
| "nullish JNull = True"
| "nullish v = False"

text \<open>
  \<open>propOf v k\<close> is the property read \<^verbatim>\<open>v.k\<close> (or \<^verbatim>\<open>v[0]\<close> for the key \<open>''0''\<close>)
  on a value that is neither \<^verbatim>\<open>null\<close> nor \<^verbatim>\<open>undefined\<close>. The code reads the index
  \<open>0\<close>, \<^verbatim>\<open>length\<close> and plain names that no prototype defines, so arrays, strings
  and the other primitives answer \<^verbatim>\<open>undefined\<close> for every other key.
\<close>

fun propOf :: "jsval \<Rightarrow> string \<Rightarrow> jsval" where
  "propOf (JObj kvs) k = (case map_of kvs k of None \<Rightarrow> JUndefined | Some v \<Rightarrow> v)"
| "propOf (JArr xs) k =
     (if k = ''length'' then JNum (int (length xs))
      else if k = ''0'' then (case xs of [] \<Rightarrow> JUndefined | x # _ \<Rightarrow> x)
      else JUndefined)"
| "propOf (JStr s) k =
     (if k = ''length'' then JNum (int (length s))
      else if k = ''0'' then (case s of [] \<Rightarrow> JUndefined | c # _ \<Rightarrow> JStr [c])
      else JUndefined)"
| "propOf v k = JUndefined"

text \<open>Optional chaining \<^verbatim>\<open>v?.k\<close> and the operator \<^verbatim>\<open>a || b\<close>.\<close>

definition optChain :: "jsval \<Rightarrow> string \<Rightarrow> jsval" where
  "optChain v k = (if nullish v then JUndefined else propOf v k)"

definition jsOr :: "jsval \<Rightarrow> jsval \<Rightarrow> jsval" where
  "jsOr a b = (if truthy a then a else b)"

text \<open>Optional values of the typed interfaces, seen as JavaScript values.\<close>

definition ofStr :: "string option \<Rightarrow> jsval" where
  "ofStr x = (case x of None \<Rightarrow> JUndefined | Some s \<Rightarrow> JStr s)"

definition ofNum :: "int option \<Rightarrow> jsval" where
  "ofNum x = (case x of None \<Rightarrow> JUndefined | Some n \<Rightarrow> JNum n)"

text \<open>
  Built-in functions of the JavaScript runtime are parameters of the model: the
  conversion to a number of a string, array or object, the conversion to a string of a
  number, array or object, \<^verbatim>\<open>JSON.stringify\<close>, \<^verbatim>\<open>encodeURIComponent\<close> and
  \<^verbatim>\<open>String.prototype.trim\<close>.
\<close>

record runtime =
  toNumber :: "jsval \<Rightarrow> jsval"
  toStr :: "jsval \<Rightarrow> string"
  stringify :: "jsval \<Rightarrow> string"
  encodeURIComponent :: "string \<Rightarrow> string"
  trim :: "string \<Rightarrow> string"

fun ToNumber :: "runtime \<Rightarrow> jsval \<Rightarrow> jsval" where
  "ToNumber rt JUndefined = JNaN"
| "ToNumber rt JNull = JNum 0"
| "ToNumber rt (JBool b) = JNum (if b then 1 else 0)"
| "ToNumber rt (JNum n) = JNum n"
| "ToNumber rt JNaN = JNaN"
| "ToNumber rt (JInf pos) = JInf pos"
| "ToNumber rt v = toNumber rt v"

text \<open>\<^verbatim>\<open>String(v)\<close>, also the interpolation \<^verbatim>\<open>${v}\<close> in a template literal.\<close>

fun String :: "runtime \<Rightarrow> jsval \<Rightarrow> string" where
  "String rt JUndefined = ''undefined''"
| "String rt JNull = ''null''"
| "String rt (JBool b) = (if b then ''true'' else ''false'')"
| "String rt JNaN = ''NaN''"
| "String rt (JInf pos) = (if pos then ''Infinity'' else ''-Infinity'')"
| "String rt (JStr s) = s"
| "String rt v = toStr rt v"

text \<open>
  Rounding of an exact integer result to a double, to nearest with ties to even:
  \<open>excess m\<close> is the number of low bits that do not fit the 53-bit significand,
  \<open>roundNat m\<close> the rounded magnitude, and a magnitude of \<open>2 ^ 1024\<close> or more is
  an infinity.
\<close>

function excess :: "nat \<Rightarrow> nat" where
  "excess m = (if m < 2 ^ 53 then 0 else Suc (excess (m div 2)))"
  by pat_completeness auto
termination
  by (relation "measure id") auto

declare excess.simps [simp del]

definition roundNat :: "nat \<Rightarrow> nat" where
  "roundNat m =
     (let e = excess m; q = m div 2 ^ e; r = m mod 2 ^ e in
      if 2 * r > 2 ^ e \<or> (2 * r = 2 ^ e \<and> odd q) then (q + 1) * 2 ^ e else q * 2 ^ e)"

definition doubleOf :: "int \<Rightarrow> jsval" where
  "doubleOf z =
     (let m = roundNat (nat \<bar>z\<bar>) in
      if m \<ge> 2 ^ 1024 then JInf (0 < z)
      else JNum (if z < 0 then - int m else int m))"

text \<open>
  \<^verbatim>\<open>v * k\<close> and \<^verbatim>\<open>v > 0\<close> for an integer constant \<open>k\<close> that is a double: the
  product of two doubles is their exact product, rounded.
\<close>

definition times :: "runtime \<Rightarrow> jsval \<Rightarrow> int \<Rightarrow> jsval" where
  "times rt v k =
     (case ToNumber rt v of
        JNum n \<Rightarrow> doubleOf (n * k)
      | JInf pos \<Rightarrow> if k = 0 then JNaN else JInf (pos = (0 < k))
      | _ \<Rightarrow> JNaN)"

definition gt0 :: "runtime \<Rightarrow> jsval \<Rightarrow> bool" where
  "gt0 rt v = (case ToNumber rt v of JNum n \<Rightarrow> n > 0 | JInf pos \<Rightarrow> pos | _ \<Rightarrow> False)"

text \<open>\<^verbatim>\<open>s.includes(sub)\<close> on strings.\<close>

fun str_includes :: "string \<Rightarrow> string \<Rightarrow> bool" where
  "str_includes [] sub = (sub = [])"
| "str_includes (c # cs) sub = (prefix sub (c # cs) \<or> str_includes cs sub)"

text \<open>\<^verbatim>\<open>Array.prototype.join\<close> on a list of strings.\<close>

fun join :: "string \<Rightarrow> string list \<Rightarrow> string" where
  "join sep [] = []"
| "join sep [x] = x"
| "join sep (x # y # ys) = x @ sep @ join sep (y # ys)"

definition squote :: string where
  "squote = [CHR 0x27]"

subsection \<open>Thrown values\<close>

text \<open>
  A thrown value is an error object. The code reads \<^verbatim>\<open>error.message\<close>,
  \<^verbatim>\<open>error.code\<close> and \<^verbatim>\<open>error.response\<close> (the HTTP response that the transport
  attaches to a failed request); \<^verbatim>\<open>new Error(msg)\<close> sets the message only.
\<close>

record AxiosResponse =
  status :: int
  statusText :: string
  data :: jsval

record thrown =
  message :: "string option"
  code :: "string option"
  response :: "AxiosResponse option"

definition Error :: "string \<Rightarrow> thrown" where
  "Error msg = \<lparr>message = Some msg, code = None, response = None\<rparr>"

text \<open>
  The \<^verbatim>\<open>TypeError\<close> of a property read on \<^verbatim>\<open>null\<close> or \<^verbatim>\<open>undefined\<close>, and of
  a call of a method the value does not have.
\<close>

definition getProp :: "jsval \<Rightarrow> string \<Rightarrow> thrown + jsval" where
  "getProp v k =
     (if nullish v
      then Inl (Error (''Cannot read properties of '' @ (if v = JNull then ''null'' else ''undefined'')
                        @ '' (reading '' @ squote @ k @ squote @ '')''))
      else Inr (propOf v k))"

section \<open>Connection configuration and capability resolution\<close>

text \<open>
  Shallow embedding of \<^verbatim>\<open>src/services/base-connection.service.ts\<close>.
  The product type is the closed enumeration \<^verbatim>\<open>InfluxProductType\<close>; the configuration
  is the \<^verbatim>\<open>InfluxConfig\<close> object, whose string fields are optional (\<open>None\<close> is
  JavaScript's \<^verbatim>\<open>undefined\<close>).
\<close>

datatype InfluxProductType = Core | Enterprise | CloudDedicated | CloudServerless | Clustered

record InfluxConfig =
  url :: "string option"
  token :: "string option"
  management_token :: "string option"
  cluster_id :: "string option"
  account_id :: "string option"
  type :: InfluxProductType

text \<open>
  JavaScript truthiness of an optional string, as tested by \<^verbatim>\<open>!!x\<close>, \<^verbatim>\<open>!x\<close> and
  \<^verbatim>\<open>x && y\<close>: \<^verbatim>\<open>undefined\<close> and the empty string are falsy. A field is called
  present when it is truthy and absent otherwise.
\<close>

definition truthyS :: "string option \<Rightarrow> bool" where
  "truthyS x = (case x of None \<Rightarrow> False | Some s \<Rightarrow> s \<noteq> [])"

abbreviation present :: "string option \<Rightarrow> bool" where
  "present x \<equiv> truthyS x"

abbreviation absent :: "string option \<Rightarrow> bool" where
  "absent x \<equiv> \<not> truthyS x"

text \<open>\<^verbatim>\<open>x || ""\<close> on an optional string.\<close>

definition orEmpty :: "string option \<Rightarrow> string" where
  "orEmpty x = (case x of None \<Rightarrow> [] | Some s \<Rightarrow> s)"

text \<open>Interpolation \<^verbatim>\<open>${x}\<close> of an optional string in a template literal.\<close>

definition tmpl :: "string option \<Rightarrow> string" where
  "tmpl x = (case x of None \<Rightarrow> ''undefined'' | Some s \<Rightarrow> s)"

subsection \<open>Endpoint resolution\<close>

definition getDataHost :: "InfluxConfig \<Rightarrow> string option" where
  "getDataHost influx =
     (if type influx = CloudDedicated \<and> truthyS (cluster_id influx)
      then Some (''https://'' @ tmpl (cluster_id influx) @ ''.a.influxdb.io'')
      else if type influx = CloudServerless then url influx
      else url influx)"

definition getManagementHost :: "InfluxConfig \<Rightarrow> string option" where
  "getManagementHost influx =
     (if type influx = CloudDedicated then Some ''https://console.influxdata.com''
      else if type influx = CloudServerless then url influx
      else url influx)"

subsection \<open>Capability predicates\<close>

definition isValidConfig :: "InfluxConfig \<Rightarrow> bool" where
  "isValidConfig config =
     (if type config = CloudDedicated then truthyS (cluster_id config) \<and> truthyS (token config)
      else if type config = CloudServerless then truthyS (url config) \<and> truthyS (token config)
      else truthyS (url config) \<and> truthyS (token config))"

definition hasDataCapabilities :: "InfluxConfig \<Rightarrow> bool" where
  "hasDataCapabilities config = isValidConfig config"

definition hasManagementCapabilities :: "InfluxConfig \<Rightarrow> bool" where
  "hasManagementCapabilities config =
     (if type config = CloudDedicated
      then truthyS (cluster_id config) \<and> truthyS (account_id config)
           \<and> truthyS (management_token config)
      else if type config = Clustered then truthyS (management_token config)
      else if type config = CloudServerless then truthyS (url config) \<and> truthyS (token config)
      else truthyS (url config) \<and> truthyS (token config))"

text \<open>
  The list \<^verbatim>\<open>missing\<close> built by the three conditional \<^verbatim>\<open>push\<close> calls of
  \<^verbatim>\<open>validateManagementCapabilities\<close>.
\<close>

definition missingManagement :: "InfluxConfig \<Rightarrow> string list" where
  "missingManagement config =
     (if \<not> truthyS (cluster_id config) then [''cluster_id''] else [])
     @ (if \<not> truthyS (account_id config) then [''account_id''] else [])
     @ (if \<not> truthyS (management_token config) then [''management_token''] else [])"

text \<open>
  A validator returns \<open>Inr ()\<close> when it returns normally and \<open>Inl e\<close> when it throws
  \<open>e\<close>. Where the source runs through two \<^verbatim>\<open>if (...) throw\<close> statements without
  throwing, it falls out of the function normally.
\<close>

definition validateDataCapabilities :: "InfluxConfig \<Rightarrow> thrown + unit" where
  "validateDataCapabilities config =
     (if \<not> hasDataCapabilities config then
        (if type config = CloudDedicated then
           (if \<not> truthyS (cluster_id config)
            then Inl (Error ''Cloud Dedicated data operations require cluster_id in configuration'')
            else if \<not> truthyS (token config)
            then Inl (Error ''Cloud Dedicated data operations require database token in configuration'')
            else Inr ())
         else if type config = CloudServerless then
           (if \<not> truthyS (url config)
            then Inl (Error ''Cloud Serverless data operations require url (region-specific endpoint) in configuration'')
            else if \<not> truthyS (token config)
            then Inl (Error ''Cloud Serverless data operations require database token in configuration'')
            else Inr ())
         else
           (if \<not> truthyS (url config)
            then Inl (Error ''Core/Enterprise data operations require url in configuration'')
            else if \<not> truthyS (token config)
            then Inl (Error ''Core/Enterprise data operations require token in configuration'')
            else Inr ()))
      else Inr ())"

definition validateManagementCapabilities :: "InfluxConfig \<Rightarrow> thrown + unit" where
  "validateManagementCapabilities config =
     (if \<not> hasManagementCapabilities config then
        (if type config = CloudDedicated \<or> type config = Clustered then
           Inl (Error (''Cloud Dedicated/Clustered management operations require: ''
                        @ join '', '' (missingManagement config)))
         else if type config = CloudServerless then
           (if \<not> truthyS (url config)
            then Inl (Error ''Cloud Serverless management operations require url (region-specific endpoint) in configuration'')
            else if \<not> truthyS (token config)
            then Inl (Error ''Cloud Serverless management operations require database token in configuration'')
            else Inr ())
         else
           (if \<not> truthyS (url config)
            then Inl (Error ''Core/Enterprise management operations require url in configuration'')
            else if \<not> truthyS (token config)
            then Inl (Error ''Core/Enterprise management operations require token with management permissions'')
            else Inr ()))
      else Inr ())"

subsection \<open>Operation allow-list\<close>

text \<open>
  The display names: \<open>supportedName\<close> is the \<^verbatim>\<open>switch\<close> inside the \<^verbatim>\<open>map\<close>,
  \<open>currentName\<close> the chain of conditionals. Their \<^verbatim>\<open>default\<close> branches are
  unreachable for the five members of the enumeration.
\<close>

fun supportedName :: "InfluxProductType \<Rightarrow> string" where
  "supportedName Core = ''Core''"
| "supportedName Enterprise = ''Enterprise''"
| "supportedName CloudDedicated = ''Cloud Dedicated''"
| "supportedName CloudServerless = ''Cloud Serverless''"
| "supportedName Clustered = ''Clustered''"

definition currentName :: "InfluxProductType \<Rightarrow> string" where
  "currentName currentType =
     (if currentType = Core then ''Core''
      else if currentType = Enterprise then ''Enterprise''
      else if currentType = CloudDedicated then ''Cloud Dedicated''
      else if currentType = CloudServerless then ''Cloud Serverless''
      else ''Clustered'')"

definition unsupportedMessage :: "string \<Rightarrow> InfluxProductType \<Rightarrow> InfluxProductType list \<Rightarrow> string" where
  "unsupportedMessage operation currentType supportedTypes =
     ''Operation '' @ squote @ operation @ squote @ '' is not supported for ''
     @ currentName currentType @ ''. Supported types: ''
     @ join '', '' (map supportedName supportedTypes)"

definition validateOperationSupport ::
  "InfluxConfig \<Rightarrow> string \<Rightarrow> InfluxProductType list \<Rightarrow> thrown + unit" where
  "validateOperationSupport config operation supportedTypes =
     (let currentType = type config in
      if currentType \<notin> set supportedTypes
      then Inl (Error (unsupportedMessage operation currentType supportedTypes))
      else Inr ())"

section \<open>Transport\<close>

text \<open>
  Shallow embedding of \<^verbatim>\<open>src/services/http-client.service.ts\<close>. The HTTP library
  and the backend behind it are external: they are a parameter, a function from the
  request and the state of the outside world to either a thrown error or a response,
  and the next state of the world. An asynchronous method is a computation over that
  world which ends by returning a value or by throwing.
\<close>

type_synonym ('a, 's) io = "'s \<Rightarrow> (thrown + 'a) \<times> 's"

definition return_io :: "'a \<Rightarrow> ('a, 's) io" where
  "return_io x = (\<lambda>s. (Inr x, s))"

definition throw_io :: "thrown \<Rightarrow> ('a, 's) io" where
  "throw_io e = (\<lambda>s. (Inl e, s))"

definition bind_io :: "('a, 's) io \<Rightarrow> ('a \<Rightarrow> ('b, 's) io) \<Rightarrow> ('b, 's) io" where
  "bind_io m f = (\<lambda>s. case m s of (Inl e, s') \<Rightarrow> (Inl e, s') | (Inr x, s') \<Rightarrow> f x s')"

definition catch_io :: "('a, 's) io \<Rightarrow> (thrown \<Rightarrow> ('a, 's) io) \<Rightarrow> ('a, 's) io" where
  "catch_io m h = (\<lambda>s. case m s of (Inl e, s') \<Rightarrow> h e s' | (Inr x, s') \<Rightarrow> (Inr x, s'))"

definition lift_io :: "thrown + 'a \<Rightarrow> ('a, 's) io" where
  "lift_io r = (\<lambda>s. (r, s))"

datatype verb = GET | POST | PUT | DELETE | PATCH

text \<open>
  The client holds what \<^verbatim>\<open>axios.create\<close> was given. A per-request \<^verbatim>\<open>config\<close>
  is modelled by its \<^verbatim>\<open>headers\<close>, empty when the argument is omitted.
\<close>

record HttpClientService =
  baseURL :: "string option"
  timeout :: nat
  headers :: "(string \<times> string) list"

record request =
  req_method :: verb
  req_client :: HttpClientService
  req_url :: string
  req_data :: jsval
  req_headers :: "(string \<times> string) list"

type_synonym 's axios = "request \<Rightarrow> (AxiosResponse, 's) io"

text \<open>\<^verbatim>\<open>baseURL?.replace(/\/$/, "")\<close>: one trailing slash is removed.\<close>

definition stripTrailingSlash :: "string \<Rightarrow> string" where
  "stripTrailingSlash s = (if s \<noteq> [] \<and> last s = CHR ''/'' then butlast s else s)"

definition createAuthHeaders ::
  "runtime \<Rightarrow> string option \<Rightarrow> InfluxProductType option \<Rightarrow> (string \<times> string) list" where
  "createAuthHeaders rt tok influxType =
     [(''Content-Type'', ''application/json''), (''Accept'', ''application/json'')]
     @ (case tok of
          None \<Rightarrow> []
        | Some t \<Rightarrow>
            if trim rt t \<noteq> [] then
              (if influxType = Some CloudServerless
               then [(''Authorization'', ''Token '' @ t)]
               else [(''Authorization'', ''Bearer '' @ t)])
            else [])"

definition newHttpClientService ::
  "runtime \<Rightarrow> string option \<Rightarrow> string option \<Rightarrow> InfluxProductType option \<Rightarrow> HttpClientService" where
  "newHttpClientService rt base tok influxType =
     \<lparr>baseURL = map_option stripTrailingSlash base,
      timeout = 30000,
      headers = createAuthHeaders rt tok influxType\<rparr>"

definition createInfluxClient ::
  "runtime \<Rightarrow> string \<Rightarrow> string \<Rightarrow> InfluxProductType option \<Rightarrow> HttpClientService" where
  "createInfluxClient rt baseUrl tok influxType =
     newHttpClientService rt (Some baseUrl) (Some tok) influxType"

definition http_get ::
  "'s axios \<Rightarrow> HttpClientService \<Rightarrow> string \<Rightarrow> (string \<times> string) list \<Rightarrow> (jsval, 's) io" where
  "http_get ax client u config =
     bind_io (ax \<lparr>req_method = GET, req_client = client, req_url = u,
                  req_data = JUndefined, req_headers = config\<rparr>)
       (\<lambda>response. return_io (data response))"

definition http_post ::
  "'s axios \<Rightarrow> HttpClientService \<Rightarrow> string \<Rightarrow> jsval \<Rightarrow> (string \<times> string) list \<Rightarrow> (jsval, 's) io" where
  "http_post ax client u d config =
     bind_io (ax \<lparr>req_method = POST, req_client = client, req_url = u,
                  req_data = d, req_headers = config\<rparr>)
       (\<lambda>response. return_io (data response))"

definition http_put ::
  "'s axios \<Rightarrow> HttpClientService \<Rightarrow> string \<Rightarrow> jsval \<Rightarrow> (string \<times> string) list \<Rightarrow> (jsval, 's) io" where
  "http_put ax client u d config =
     bind_io (ax \<lparr>req_method = PUT, req_client = client, req_url = u,
                  req_data = d, req_headers = config\<rparr>)
       (\<lambda>response. return_io (data response))"

definition http_patch ::
  "'s axios \<Rightarrow> HttpClientService \<Rightarrow> string \<Rightarrow> jsval \<Rightarrow> (string \<times> string) list \<Rightarrow> (jsval, 's) io" where
  "http_patch ax client u d config =
     bind_io (ax \<lparr>req_method = PATCH, req_client = client, req_url = u,
                  req_data = d, req_headers = config\<rparr>)
       (\<lambda>response. return_io (data response))"

text \<open>\<^verbatim>\<open>error.message?.includes("aborted")\<close>\<close>

definition messageIncludes :: "thrown \<Rightarrow> string \<Rightarrow> bool" where
  "messageIncludes error sub =
     (case message error of None \<Rightarrow> False | Some m \<Rightarrow> str_includes m sub)"

definition deleteConfig :: "(string \<times> string) list \<Rightarrow> (string \<times> string) list" where
  "deleteConfig config = AList.update ''Connection'' ''close'' config"

text \<open>The request that \<^verbatim>\<open>delete\<close> hands to the HTTP library.\<close>

definition deleteRequest ::
  "HttpClientService \<Rightarrow> string \<Rightarrow> (string \<times> string) list \<Rightarrow> request" where
  "deleteRequest client u config =
     \<lparr>req_method = DELETE, req_client = client, req_url = u, req_data = JUndefined,
      req_headers = deleteConfig config\<rparr>"

definition http_delete ::
  "'s axios \<Rightarrow> HttpClientService \<Rightarrow> string \<Rightarrow> (string \<times> string) list \<Rightarrow> (jsval, 's) io" where
  "http_delete ax client u config =
     catch_io
       (bind_io (ax (deleteRequest client u config))
          (\<lambda>response. return_io (data response)))
       (\<lambda>error. if messageIncludes error ''aborted'' then return_io (JObj [])
                 else throw_io error)"

text \<open>
  \<^verbatim>\<open>getInfluxHttpClient(forManagement)\<close> of the connection service: the host and
  the token of the requested plane.
\<close>

definition getInfluxHttpClient :: "runtime \<Rightarrow> InfluxConfig \<Rightarrow> bool \<Rightarrow> HttpClientService" where
  "getInfluxHttpClient rt influxConfig forManagement =
     (let host = orEmpty (if forManagement then getManagementHost influxConfig
                           else getDataHost influxConfig);
          tok = (if forManagement \<and> (type influxConfig = CloudDedicated
                                      \<or> type influxConfig = Clustered)
                 then orEmpty (management_token influxConfig)
                 else orEmpty (token influxConfig))
      in createInfluxClient rt host tok (Some (type influxConfig)))"

section \<open>Database management\<close>

text \<open>
  Shallow embedding of \<^verbatim>\<open>src/services/database-management.service.ts\<close>.
  The optional \<^verbatim>\<open>config\<close> argument is typed by the two interfaces
  \<^verbatim>\<open>CloudDedicatedDatabaseConfig\<close> and \<^verbatim>\<open>CloudServerlessBucketConfig\<close>; the
  dispatcher casts one object to either, so the model has one record with the fields of
  both. The canonical \<^verbatim>\<open>DatabaseInfo\<close> objects and the request payloads are
  JavaScript objects.
\<close>

record DatabaseConfig =
  cfg_name :: "string option"
  description :: "string option"
  maxTables :: "int option"
  maxColumnsPerTable :: "int option"
  retentionPeriod :: "int option"

subsection \<open>Error mapping\<close>

definition handleDatabaseError :: "runtime \<Rightarrow> thrown \<Rightarrow> string \<Rightarrow> thrown" where
  "handleDatabaseError rt error operation =
     (let st = (case response error of None \<Rightarrow> JUndefined | Some r \<Rightarrow> JNum (status r));
          dat = (case response error of None \<Rightarrow> JUndefined | Some r \<Rightarrow> data r);
          respText = (case response error of None \<Rightarrow> JUndefined | Some r \<Rightarrow> JStr (statusText r));
          originalMessage = jsOr (jsOr (optChain dat ''message'') (optChain dat ''error'')) respText;
          stText = jsOr respText (JStr []);
          formatError = (\<lambda>userMessage.
             join '' - '' ([''HTTP '' @ String rt st, userMessage]
               @ (if truthy originalMessage \<and> originalMessage \<noteq> stText
                  then [''Server message: '' @ String rt originalMessage] else [])))
      in if st = JNum 400 then
           Error (formatError ''Bad Request: Invalid request parameters or malformed request'')
         else if st = JNum 401 then
           Error (formatError ''Unauthorized: Check your InfluxDB token permissions'')
         else if st = JNum 403 then
           Error (formatError ''Forbidden: Token does not have sufficient permissions for this operation'')
         else if st = JNum 404 then
           Error (formatError ''Not Found: Resource does not exist or endpoint not available'')
         else if st = JNum 409 then
           Error (formatError ''Conflict: Resource already exists or operation conflicts with current state'')
         else if st = JNum 500 then
           Error (formatError ''Internal Server Error: InfluxDB server encountered an error'')
         else if code error = Some ''ECONNREFUSED'' then
           Error ''Connection refused: Check if InfluxDB is running and URL is correct''
         else if code error = Some ''ENOTFOUND'' then
           Error ''Host not found: Check your InfluxDB URL''
         else if truthy dat then
           Error (''HTTP '' @ String rt st @ '' - InfluxDB API error: ''
                  @ String rt (jsOr originalMessage (JStr (stringify rt dat))))
         else
           Error (''Failed to '' @ operation @ '': '' @ tmpl (message error)))"

text \<open>\<^verbatim>\<open>try { body } catch (error) { this.handleDatabaseError(error, operation) }\<close>\<close>

definition tryDatabase :: "runtime \<Rightarrow> string \<Rightarrow> ('a, 's) io \<Rightarrow> ('a, 's) io" where
  "tryDatabase rt operation body =
     catch_io body (\<lambda>error. throw_io (handleDatabaseError rt error operation))"

subsection \<open>Cloud Dedicated strategy\<close>

definition dedicatedEndpoint :: "InfluxConfig \<Rightarrow> string" where
  "dedicatedEndpoint influx =
     ''/api/v0/accounts/'' @ tmpl (account_id influx) @ ''/clusters/''
     @ tmpl (cluster_id influx) @ ''/databases''"

text \<open>\<^verbatim>\<open>data?.key || result?.key || key\<close> of a response.\<close>

definition possibleArray :: "jsval \<Rightarrow> string \<Rightarrow> jsval" where
  "possibleArray resp key =
     jsOr (jsOr (optChain (propOf resp ''data'') key) (optChain (propOf resp ''result'') key))
          (propOf resp key)"

definition databasesOfCloudDedicated :: "runtime \<Rightarrow> jsval \<Rightarrow> thrown + jsval list" where
  "databasesOfCloudDedicated rt resp =
     (if \<not> truthy resp \<or> typeof resp \<noteq> ''object'' then
        Inl (Error ''Invalid response format from InfluxDB Cloud API'')
      else if isArray (propOf resp ''databases'') then Inr (elems (propOf resp ''databases''))
      else if isArray resp then Inr (elems resp)
      else
        (let possibleDatabases = possibleArray resp ''databases'' in
         if isArray possibleDatabases then Inr (elems possibleDatabases)
         else Inl (Error (''Unexpected response structure: '' @ stringify rt resp))))"

definition databaseInfoCloudDedicated :: "runtime \<Rightarrow> jsval \<Rightarrow> jsval" where
  "databaseInfoCloudDedicated rt item =
     (if typeof item = ''string'' then JObj [(''name'', item)]
      else if truthy item \<and> typeof item = ''object'' \<and> truthy (propOf item ''name'') then
        JObj [(''name'', propOf item ''name''),
              (''maxTables'', propOf item ''maxTables''),
              (''maxColumnsPerTable'', propOf item ''maxColumnsPerTable''),
              (''retentionPeriod'', propOf item ''retentionPeriod'')]
      else JObj [(''name'', JStr (String rt item))])"

definition listDatabasesCloudDedicated ::
  "runtime \<Rightarrow> 's axios \<Rightarrow> InfluxConfig \<Rightarrow> (jsval list, 's) io" where
  "listDatabasesCloudDedicated rt ax config =
     tryDatabase rt ''list databases''
       (bind_io (http_get ax (getInfluxHttpClient rt config True) (dedicatedEndpoint config) [])
          (\<lambda>resp. bind_io (lift_io (databasesOfCloudDedicated rt resp))
             (\<lambda>databases. return_io (map (databaseInfoCloudDedicated rt) databases))))"

definition payloadCloudDedicated :: "string \<Rightarrow> DatabaseConfig option \<Rightarrow> jsval" where
  "payloadCloudDedicated name config =
     JObj [(''name'', JStr name),
           (''maxTables'',
              (case Option.bind config maxTables of Some v \<Rightarrow> JNum v | None \<Rightarrow> JNum 500)),
           (''maxColumnsPerTable'',
              (case Option.bind config maxColumnsPerTable of Some v \<Rightarrow> JNum v | None \<Rightarrow> JNum 200)),
           (''retentionPeriod'',
              (case Option.bind config retentionPeriod of Some v \<Rightarrow> JNum v | None \<Rightarrow> JNum 0))]"

definition createDatabaseCloudDedicated ::
  "runtime \<Rightarrow> 's axios \<Rightarrow> InfluxConfig \<Rightarrow> string \<Rightarrow> DatabaseConfig option \<Rightarrow> (bool, 's) io" where
  "createDatabaseCloudDedicated rt ax baseConfig name config =
     tryDatabase rt (''create database '' @ squote @ name @ squote)
       (bind_io (http_post ax (getInfluxHttpClient rt baseConfig True)
                   (dedicatedEndpoint baseConfig) (payloadCloudDedicated name config) [])
          (\<lambda>_. return_io True))"

definition updatePayloadCloudDedicated :: "DatabaseConfig \<Rightarrow> (string \<times> jsval) list" where
  "updatePayloadCloudDedicated config =
     (case maxTables config of Some v \<Rightarrow> [(''maxTables'', JNum v)] | None \<Rightarrow> [])
     @ (case maxColumnsPerTable config of Some v \<Rightarrow> [(''maxColumnsPerTable'', JNum v)] | None \<Rightarrow> [])
     @ (case retentionPeriod config of Some v \<Rightarrow> [(''retentionPeriod'', JNum v)] | None \<Rightarrow> [])"

definition updateDatabaseCloudDedicated ::
  "runtime \<Rightarrow> 's axios \<Rightarrow> InfluxConfig \<Rightarrow> string \<Rightarrow> DatabaseConfig \<Rightarrow> (bool, 's) io" where
  "updateDatabaseCloudDedicated rt ax baseConfig name config =
     tryDatabase rt (''update database '' @ squote @ name @ squote)
       (let client = getInfluxHttpClient rt baseConfig True;
            endpoint = dedicatedEndpoint baseConfig @ ''/'' @ encodeURIComponent rt name;
            payload = updatePayloadCloudDedicated config
        in if length payload = 0
           then throw_io (Error ''No configuration parameters provided for update'')
           else bind_io (http_patch ax client endpoint (JObj payload) [])
                  (\<lambda>_. return_io True))"

definition deleteDatabaseCloudDedicated ::
  "runtime \<Rightarrow> 's axios \<Rightarrow> InfluxConfig \<Rightarrow> string \<Rightarrow> (bool, 's) io" where
  "deleteDatabaseCloudDedicated rt ax config name =
     tryDatabase rt (''delete database '' @ squote @ name @ squote)
       (bind_io (http_delete ax (getInfluxHttpClient rt config True)
                   (dedicatedEndpoint config @ ''/'' @ encodeURIComponent rt name) [])
          (\<lambda>_. return_io True))"

subsection \<open>Core and Enterprise strategy\<close>

definition databasesOfCoreEnterprise :: "runtime \<Rightarrow> jsval \<Rightarrow> thrown + jsval list" where
  "databasesOfCoreEnterprise rt resp =
     (if \<not> truthy resp \<or> typeof resp \<noteq> ''object'' then
        Inl (Error ''Invalid response format from InfluxDB API'')
      else if isArray (propOf resp ''databases'') then Inr (elems (propOf resp ''databases''))
      else if isArray resp then Inr (elems resp)
      else if truthy resp \<and> typeof resp = ''object'' then
        (let possibleDatabases = possibleArray resp ''databases'' in
         if isArray possibleDatabases then Inr (elems possibleDatabases)
         else Inl (Error (''Unexpected response structure: '' @ stringify rt resp)))
      else Inl (Error (''Unexpected response structure: '' @ stringify rt resp)))"

definition databaseInfoCoreEnterprise :: "runtime \<Rightarrow> jsval \<Rightarrow> jsval" where
  "databaseInfoCoreEnterprise rt item =
     (if typeof item = ''string'' then JObj [(''name'', item)]
      else if truthy item \<and> typeof item = ''object'' \<and> truthy (propOf item ''iox::database'') then
        JObj [(''name'', propOf item ''iox::database'')]
      else if truthy item \<and> typeof item = ''object'' \<and> truthy (propOf item ''name'') then
        JObj [(''name'', propOf item ''name'')]
      else JObj [(''name'', JStr (String rt item))])"

definition listDatabasesCoreEnterprise ::
  "runtime \<Rightarrow> 's axios \<Rightarrow> InfluxConfig \<Rightarrow> (jsval list, 's) io" where
  "listDatabasesCoreEnterprise rt ax config =
     tryDatabase rt ''list databases''
       (bind_io (http_get ax (getInfluxHttpClient rt config False)
                   ''/api/v3/configure/database?format=json'' [])
          (\<lambda>resp. bind_io (lift_io (databasesOfCoreEnterprise rt resp))
             (\<lambda>databases. return_io (map (databaseInfoCoreEnterprise rt) databases))))"

definition createDatabaseCoreEnterprise ::
  "runtime \<Rightarrow> 's axios \<Rightarrow> InfluxConfig \<Rightarrow> string \<Rightarrow> (bool, 's) io" where
  "createDatabaseCoreEnterprise rt ax config name =
     tryDatabase rt (''create database '' @ squote @ name @ squote)
       (bind_io (http_post ax (getInfluxHttpClient rt config False)
                   ''/api/v3/configure/database'' (JObj [(''db'', JStr name)]) [])
          (\<lambda>_. return_io True))"

definition deleteDatabaseCoreEnterprise ::
  "runtime \<Rightarrow> 's axios \<Rightarrow> InfluxConfig \<Rightarrow> string \<Rightarrow> (bool, 's) io" where
  "deleteDatabaseCoreEnterprise rt ax config name =
     tryDatabase rt (''delete database '' @ squote @ name @ squote)
       (bind_io (http_delete ax (getInfluxHttpClient rt config False)
                   (''/api/v3/configure/database?db='' @ encodeURIComponent rt name) [])
          (\<lambda>_. return_io True))"

subsection \<open>Cloud Serverless strategy\<close>

definition bucketsOfCloudServerless :: "runtime \<Rightarrow> jsval \<Rightarrow> thrown + jsval list" where
  "bucketsOfCloudServerless rt resp =
     (if \<not> truthy resp \<or> typeof resp \<noteq> ''object'' then
        Inl (Error ''Invalid response format from InfluxDB Cloud Serverless API'')
      else if isArray (propOf resp ''buckets'') then Inr (elems (propOf resp ''buckets''))
      else if isArray resp then Inr (elems resp)
      else
        (let possibleBuckets = possibleArray resp ''buckets'' in
         if isArray possibleBuckets then Inr (elems possibleBuckets)
         else Inl (Error (''Unexpected response structure: '' @ stringify rt resp))))"

text \<open>
  \<^verbatim>\<open>buckets.filter((bucket) => bucket.type !== "system")\<close>: the callback reads a
  property of every element in turn and throws at the first \<^verbatim>\<open>null\<close>.
\<close>

fun filterNonSystem :: "jsval list \<Rightarrow> thrown + jsval list" where
  "filterNonSystem [] = Inr []"
| "filterNonSystem (bucket # rest) =
     (case getProp bucket ''type'' of
        Inl e \<Rightarrow> Inl e
      | Inr t \<Rightarrow>
          (case filterNonSystem rest of
             Inl e \<Rightarrow> Inl e
           | Inr kept \<Rightarrow> Inr (if t \<noteq> JStr ''system'' then bucket # kept else kept)))"

text \<open>\<^verbatim>\<open>bucket.retentionRules?.[0]?.everySeconds\<close>\<close>

definition everySecondsOf :: "jsval \<Rightarrow> jsval" where
  "everySecondsOf bucket =
     optChain (optChain (propOf bucket ''retentionRules'') ''0'') ''everySeconds''"

text \<open>\<^verbatim>\<open>if (bucket.k) databaseInfo.k' = bucket.k\<close>\<close>

definition passthrough :: "jsval \<Rightarrow> string \<Rightarrow> string \<Rightarrow> (string \<times> jsval) list" where
  "passthrough bucket k k' = (if truthy (propOf bucket k) then [(k', propOf bucket k)] else [])"

definition databaseInfoCloudServerless :: "runtime \<Rightarrow> jsval \<Rightarrow> jsval" where
  "databaseInfoCloudServerless rt bucket =
     (if typeof bucket = ''string'' then JObj [(''name'', bucket)]
      else if truthy bucket \<and> typeof bucket = ''object'' \<and> truthy (propOf bucket ''name'') then
        JObj ([(''name'', propOf bucket ''name''),
               (''retentionPeriod'',
                  (if truthy (everySecondsOf bucket)
                   then times rt (everySecondsOf bucket) 1000000000
                   else JUndefined))]
              @ passthrough bucket ''id'' ''bucketId''
              @ passthrough bucket ''orgID'' ''organizationId''
              @ passthrough bucket ''storageType'' ''storageType''
              @ passthrough bucket ''createdAt'' ''createdAt''
              @ passthrough bucket ''updatedAt'' ''updatedAt''
              @ passthrough bucket ''description'' ''description''
              @ passthrough bucket ''rp'' ''retentionPolicy'')
      else JObj [(''name'', JStr (String rt bucket))])"

definition listDatabasesCloudServerless ::
  "runtime \<Rightarrow> 's axios \<Rightarrow> InfluxConfig \<Rightarrow> (jsval list, 's) io" where
  "listDatabasesCloudServerless rt ax config =
     tryDatabase rt ''list databases (buckets)''
       (bind_io (http_get ax (getInfluxHttpClient rt config True) ''/api/v2/buckets'' [])
          (\<lambda>resp. bind_io (lift_io (bucketsOfCloudServerless rt resp))
             (\<lambda>buckets. bind_io (lift_io (filterNonSystem buckets))
                (\<lambda>kept. return_io (map (databaseInfoCloudServerless rt) kept)))))"

text \<open>
  The organisation of the new bucket:
  \<^verbatim>\<open>orgsResponse?.orgs && orgsResponse.orgs.length > 0\<close>, then
  \<^verbatim>\<open>orgsResponse.orgs[0].id\<close>.
\<close>

definition orgIDOf :: "runtime \<Rightarrow> jsval \<Rightarrow> thrown + jsval" where
  "orgIDOf rt orgsResponse =
     (let orgs = optChain orgsResponse ''orgs'' in
      if truthy orgs \<and> gt0 rt (propOf orgs ''length'')
      then getProp (propOf orgs ''0'') ''id''
      else Inl (Error ''Could not find organization ID for bucket creation''))"

text \<open>
  \<^verbatim>\<open>config?.retentionPeriod ? Math.floor(config.retentionPeriod / 1000000000) : 2592000\<close>:
  the test is for truthiness, and \<open>0\<close> is falsy.
\<close>

definition createEverySeconds :: "DatabaseConfig option \<Rightarrow> int" where
  "createEverySeconds config =
     (case Option.bind config retentionPeriod of
        None \<Rightarrow> 2592000
      | Some rp \<Rightarrow> if rp \<noteq> 0 then rp div 1000000000 else 2592000)"

definition expireRule :: "int \<Rightarrow> jsval" where
  "expireRule secs = JObj [(''type'', JStr ''expire''), (''everySeconds'', JNum secs)]"

definition payloadCloudServerless :: "string \<Rightarrow> jsval \<Rightarrow> DatabaseConfig option \<Rightarrow> jsval" where
  "payloadCloudServerless name orgID config =
     JObj ([(''name'', JStr name),
            (''orgID'', orgID),
            (''retentionRules'', JArr [expireRule (createEverySeconds config)])]
           @ (if truthyS (Option.bind config description)
              then [(''description'', ofStr (Option.bind config description))] else []))"

definition createDatabaseCloudServerless ::
  "runtime \<Rightarrow> 's axios \<Rightarrow> InfluxConfig \<Rightarrow> string \<Rightarrow> DatabaseConfig option \<Rightarrow> (bool, 's) io" where
  "createDatabaseCloudServerless rt ax baseConfig name config =
     tryDatabase rt (''create database (bucket) '' @ squote @ name @ squote)
       (let client = getInfluxHttpClient rt baseConfig True in
        bind_io (http_get ax client ''/api/v2/orgs'' [])
          (\<lambda>orgsResponse. bind_io (lift_io (orgIDOf rt orgsResponse))
             (\<lambda>orgID. bind_io (http_post ax client ''/api/v2/buckets''
                                  (payloadCloudServerless name orgID config) [])
                (\<lambda>_. return_io True))))"

text \<open>
  \<^verbatim>\<open>buckets.find((b) => b.name === name && b.type !== "system")\<close>, and the lookup
  around it: \<^verbatim>\<open>find\<close> exists on arrays only.
\<close>

fun findBucket :: "string \<Rightarrow> jsval list \<Rightarrow> thrown + jsval" where
  "findBucket name [] = Inr JUndefined"
| "findBucket name (b # rest) =
     (case getProp b ''name'' of
        Inl e \<Rightarrow> Inl e
      | Inr n \<Rightarrow>
          if n = JStr name \<and> propOf b ''type'' \<noteq> JStr ''system'' then Inr b
          else findBucket name rest)"

definition lookupBucket :: "string \<Rightarrow> jsval \<Rightarrow> thrown + jsval" where
  "lookupBucket name bucketsResponse =
     (let buckets = optChain bucketsResponse ''buckets'' in
      if truthy buckets then
        (if isArray buckets then findBucket name (elems buckets)
         else Inl (Error ''bucketsResponse.buckets.find is not a function''))
      else Inr JUndefined)"

definition notFound :: "string \<Rightarrow> thrown" where
  "notFound name = Error (''Database (bucket) '' @ squote @ name @ squote @ '' not found'')"

definition deleteDatabaseCloudServerless ::
  "runtime \<Rightarrow> 's axios \<Rightarrow> InfluxConfig \<Rightarrow> string \<Rightarrow> (bool, 's) io" where
  "deleteDatabaseCloudServerless rt ax config name =
     tryDatabase rt (''delete database (bucket) '' @ squote @ name @ squote)
       (let client = getInfluxHttpClient rt config True in
        bind_io (http_get ax client ''/api/v2/buckets'' [])
          (\<lambda>bucketsResponse. bind_io (lift_io (lookupBucket name bucketsResponse))
             (\<lambda>bucket.
                let bucketID = (if truthy bucket then propOf bucket ''id'' else JUndefined) in
                if \<not> truthy bucketID then throw_io (notFound name)
                else bind_io (http_delete ax client (''/api/v2/buckets/'' @ String rt bucketID) [])
                       (\<lambda>_. return_io True))))"

definition defaultRules :: jsval where
  "defaultRules = JArr [expireRule 2592000]"

definition updatePayloadCloudServerless :: "jsval \<Rightarrow> DatabaseConfig \<Rightarrow> jsval" where
  "updatePayloadCloudServerless bucket config =
     (let rules = (case retentionPeriod config of
                     Some rp \<Rightarrow> JArr [expireRule (rp div 1000000000)]
                   | None \<Rightarrow> jsOr (propOf bucket ''retentionRules'') defaultRules);
          rules' = (if \<not> truthy rules \<or> propOf rules ''length'' = JNum 0
                    then defaultRules else rules)
      in JObj ((if truthyS (cfg_name config) \<and> ofStr (cfg_name config) \<noteq> propOf bucket ''name''
                then [(''name'', ofStr (cfg_name config))] else [])
               @ (case description config of
                    Some d \<Rightarrow> [(''description'', JStr d)] | None \<Rightarrow> [])
               @ [(''retentionRules'', rules')]))"

definition updateDatabaseCloudServerless ::
  "runtime \<Rightarrow> 's axios \<Rightarrow> InfluxConfig \<Rightarrow> string \<Rightarrow> DatabaseConfig \<Rightarrow> (bool, 's) io" where
  "updateDatabaseCloudServerless rt ax baseConfig name config =
     tryDatabase rt (''update database (bucket) '' @ squote @ name @ squote)
       (let client = getInfluxHttpClient rt baseConfig True in
        bind_io (http_get ax client ''/api/v2/buckets'' [])
          (\<lambda>bucketsResponse. bind_io (lift_io (lookupBucket name bucketsResponse))
             (\<lambda>bucket.
                if \<not> truthy bucket then throw_io (notFound name)
                else bind_io (http_patch ax client
                                (''/api/v2/buckets/'' @ String rt (propOf bucket ''id''))
                                (updatePayloadCloudServerless bucket config) [])
                       (\<lambda>_. return_io True))))"

subsection \<open>Dispatch\<close>

text \<open>
  The \<^verbatim>\<open>default\<close> branch of each \<^verbatim>\<open>switch\<close> is unreachable for the five
  members of the enumeration.
\<close>

definition nameRequired :: thrown where
  "nameRequired = Error ''Database name is required''"

definition listDatabases :: "runtime \<Rightarrow> 's axios \<Rightarrow> InfluxConfig \<Rightarrow> (jsval list, 's) io" where
  "listDatabases rt ax config =
     bind_io (lift_io (validateManagementCapabilities config))
       (\<lambda>_. case type config of
               CloudDedicated \<Rightarrow> listDatabasesCloudDedicated rt ax config
             | Clustered \<Rightarrow> listDatabasesCloudDedicated rt ax config
             | CloudServerless \<Rightarrow> listDatabasesCloudServerless rt ax config
             | Core \<Rightarrow> listDatabasesCoreEnterprise rt ax config
             | Enterprise \<Rightarrow> listDatabasesCoreEnterprise rt ax config)"

definition createDatabase ::
  "runtime \<Rightarrow> 's axios \<Rightarrow> InfluxConfig \<Rightarrow> string \<Rightarrow> DatabaseConfig option \<Rightarrow> (bool, 's) io" where
  "createDatabase rt ax baseConfig name config =
     (if name = [] then throw_io nameRequired
      else bind_io (lift_io (validateManagementCapabilities baseConfig))
        (\<lambda>_. case type baseConfig of
                CloudDedicated \<Rightarrow> createDatabaseCloudDedicated rt ax baseConfig name config
              | Clustered \<Rightarrow> createDatabaseCloudDedicated rt ax baseConfig name config
              | CloudServerless \<Rightarrow> createDatabaseCloudServerless rt ax baseConfig name config
              | Core \<Rightarrow> createDatabaseCoreEnterprise rt ax baseConfig name
              | Enterprise \<Rightarrow> createDatabaseCoreEnterprise rt ax baseConfig name))"

definition updateDatabase ::
  "runtime \<Rightarrow> 's axios \<Rightarrow> InfluxConfig \<Rightarrow> string \<Rightarrow> DatabaseConfig \<Rightarrow> (bool, 's) io" where
  "updateDatabase rt ax baseConfig name config =
     (if name = [] then throw_io nameRequired
      else bind_io (lift_io (validateOperationSupport baseConfig ''update_database''
                               [CloudDedicated, CloudServerless, Clustered]))
        (\<lambda>_. bind_io (lift_io (validateManagementCapabilities baseConfig))
           (\<lambda>_. case type baseConfig of
                   CloudDedicated \<Rightarrow> updateDatabaseCloudDedicated rt ax baseConfig name config
                 | Clustered \<Rightarrow> updateDatabaseCloudDedicated rt ax baseConfig name config
                 | CloudServerless \<Rightarrow> updateDatabaseCloudServerless rt ax baseConfig name config
                 | Core \<Rightarrow> throw_io (Error ''Database update is not supported for core/enterprise InfluxDB'')
                 | Enterprise \<Rightarrow> throw_io (Error ''Database update is not supported for core/enterprise InfluxDB''))))"

definition deleteDatabase ::
  "runtime \<Rightarrow> 's axios \<Rightarrow> InfluxConfig \<Rightarrow> string \<Rightarrow> (bool, 's) io" where
  "deleteDatabase rt ax config name =
     (if name = [] then throw_io nameRequired
      else bind_io (lift_io (validateManagementCapabilities config))
        (\<lambda>_. case type config of
                CloudDedicated \<Rightarrow> deleteDatabaseCloudDedicated rt ax config name
              | Clustered \<Rightarrow> deleteDatabaseCloudDedicated rt ax config name
              | CloudServerless \<Rightarrow> deleteDatabaseCloudServerless rt ax config name
              | Core \<Rightarrow> deleteDatabaseCoreEnterprise rt ax config name
              | Enterprise \<Rightarrow> deleteDatabaseCoreEnterprise rt ax config name))"

section \<open>Specification-side definitions and example inputs\<close>

text \<open>
  The fields the specification requires for the data plane: \<^verbatim>\<open>clusterId\<close> and
  \<^verbatim>\<open>token\<close> for Cloud Dedicated, \<^verbatim>\<open>url\<close> and \<^verbatim>\<open>token\<close> for every other
  product type.
\<close>

definition dataRequired :: "InfluxProductType \<Rightarrow> (InfluxConfig \<Rightarrow> string option) list" where
  "dataRequired t = (if t = CloudDedicated then [cluster_id, token] else [url, token])"

text \<open>
  The three fields the specification names for the management plane of Cloud Dedicated
  and Clustered, with the names the error message uses.
\<close>

definition managementFields :: "(string \<times> (InfluxConfig \<Rightarrow> string option)) list" where
  "managementFields =
     [(''cluster_id'', cluster_id), (''account_id'', account_id),
      (''management_token'', management_token)]"

definition coreNoToken :: InfluxConfig where
  "coreNoToken =
     \<lparr>url = Some ''http://localhost:8181'', token = None, management_token = None,
      cluster_id = None, account_id = None, type = Core\<rparr>"

definition coreFull :: InfluxConfig where
  "coreFull =
     \<lparr>url = Some ''http://localhost:8181'', token = Some ''tok'', management_token = None,
      cluster_id = None, account_id = None, type = Core\<rparr>"

definition dedicatedData :: InfluxConfig where
  "dedicatedData =
     \<lparr>url = None, token = Some ''tok'', management_token = None,
      cluster_id = Some ''abc123'', account_id = None, type = CloudDedicated\<rparr>"

definition dedicatedUrlOnly :: InfluxConfig where
  "dedicatedUrlOnly =
     \<lparr>url = Some ''https://db.example.com'', token = Some ''tok'', management_token = None,
      cluster_id = None, account_id = None, type = CloudDedicated\<rparr>"

definition clusteredTokenOnly :: InfluxConfig where
  "clusteredTokenOnly =
     \<lparr>url = None, token = None, management_token = Some ''mgmt'',
      cluster_id = None, account_id = None, type = Clustered\<rparr>"

definition clusteredNoToken :: InfluxConfig where
  "clusteredNoToken =
     \<lparr>url = Some ''https://db.example.com'', token = Some ''tok'', management_token = None,
      cluster_id = None, account_id = Some ''acc'', type = Clustered\<rparr>"

text \<open>
  A runtime for the worked examples. Its \<open>encodeURIComponent\<close> and \<open>trim\<close>
  are the identity, which is what the built-ins do on the names and tokens of the
  examples (unreserved characters, no surrounding white space); the conversions are
  not exercised by the examples.
\<close>

definition exampleRuntime :: runtime where
  "exampleRuntime =
     \<lparr>toNumber = (\<lambda>v. JNaN), toStr = (\<lambda>v. ''[object Object]''),
      stringify = (\<lambda>v. ''{}''), encodeURIComponent = (\<lambda>s. s), trim = (\<lambda>s. s)\<rparr>"

text \<open>A backend that refuses every connection; its world has no state.\<close>

definition connectionRefused :: thrown where
  "connectionRefused =
     \<lparr>message = Some ''connect ECONNREFUSED'', code = Some ''ECONNREFUSED'', response = None\<rparr>"

definition offline :: "unit axios" where
  "offline = (\<lambda>req. throw_io connectionRefused)"

definition noConfig :: DatabaseConfig where
  "noConfig =
     \<lparr>cfg_name = None, description = None, maxTables = None, maxColumnsPerTable = None,
      retentionPeriod = None\<rparr>"

definition requestAborted :: thrown where
  "requestAborted =
     \<lparr>message = Some ''Request aborted'', code = Some ''ECONNABORTED'', response = None\<rparr>"

text \<open>A backend whose every connection is closed before the response is read.\<close>

definition aborting :: "unit axios" where
  "aborting = (\<lambda>req. throw_io requestAborted)"

definition okResponse :: "jsval \<Rightarrow> AxiosResponse" where
  "okResponse d = \<lparr>status = 200, statusText = ''OK'', data = d\<rparr>"

text \<open>
  A backend that accepts every request with an empty object; the state of its world is
  the log of the requests it has received.
\<close>

definition recording :: "request list axios" where
  "recording = (\<lambda>req log. (Inr (okResponse (JObj [])), log @ [req]))"

text \<open>
  A Cloud Serverless backend with one organisation and the two buckets of the
  specification's example; it logs the requests as well.
\<close>

definition exampleBuckets :: "jsval list" where
  "exampleBuckets =
     [JObj [(''name'', JStr ''a''), (''type'', JStr ''user'')],
      JObj [(''name'', JStr ''_monitoring''), (''type'', JStr ''system'')]]"

definition serverless :: "request list axios" where
  "serverless =
     (\<lambda>req log.
        (Inr (okResponse
           (if req_method req = GET \<and> req_url req = ''/api/v2/orgs''
            then JObj [(''orgs'', JArr [JObj [(''id'', JStr ''org1'')]])]
            else if req_method req = GET \<and> req_url req = ''/api/v2/buckets''
            then JObj [(''buckets'', JArr exampleBuckets)]
            else JObj [])),
         log @ [req]))"

text \<open>A backend that answers at the management console only.\<close>

definition consoleOnly :: "unit axios" where
  "consoleOnly =
     (\<lambda>req. if baseURL (req_client req) = Some ''https://console.influxdata.com''
            then return_io (okResponse (JObj [(''databases'', JArr [JStr ''db1''])]))
            else throw_io connectionRefused)"

definition dedicatedFull :: InfluxConfig where
  "dedicatedFull =
     \<lparr>url = None, token = Some ''tok'', management_token = Some ''mgmt'',
      cluster_id = Some ''abc123'', account_id = Some ''acc'', type = CloudDedicated\<rparr>"

definition clusteredFull :: InfluxConfig where
  "clusteredFull =
     \<lparr>url = Some ''https://db.example.com'', token = Some ''tok'', management_token = Some ''mgmt'',
      cluster_id = Some ''abc123'', account_id = Some ''acc'', type = Clustered\<rparr>"

definition serverlessFull :: InfluxConfig where
  "serverlessFull =
     \<lparr>url = Some ''https://eu-central-1-1.aws.cloud2.influxdata.com/'', token = Some ''tok'',
      management_token = None, cluster_id = None, account_id = None, type = CloudServerless\<rparr>"

definition serverlessClient :: HttpClientService where
  "serverlessClient =
     \<lparr>baseURL = Some ''https://eu-central-1-1.aws.cloud2.influxdata.com'', timeout = 30000,
      headers = [(''Content-Type'', ''application/json''), (''Accept'', ''application/json''),
                 (''Authorization'', ''Token tok'')]\<rparr>"



text \<open>
  The names by which a message is to call the product types.
\<close>

fun displayName :: "InfluxProductType \<Rightarrow> string" where
  "displayName Core = ''Core''"
| "displayName Enterprise = ''Enterprise''"
| "displayName CloudDedicated = ''Cloud Dedicated''"
| "displayName CloudServerless = ''Cloud Serverless''"
| "displayName Clustered = ''Clustered''"



section \<open>Auxiliary facts\<close>

lemma str_includes_iff: "str_includes s sub \<longleftrightarrow> sublist sub s"
  by (induction s) (auto simp: sublist_Cons_right)

lemma names_agree: "currentName t = supportedName t"
  by (cases t) (simp_all add: currentName_def)

lemma sublist_appendL: "sublist x ys \<Longrightarrow> sublist x (ps @ ys)"
  by (rule sublist_order.order_trans[OF _ sublist_append_leftI])

lemma sublist_join: "x \<in> set xs \<Longrightarrow> sublist x (join sep xs)"
proof (induction sep xs rule: join.induct)
  case (3 sep a b ys)
  then show ?case
    by (auto intro: sublist_appendL)
qed auto

lemma unsupportedMessage_names_current:
  "sublist (currentName t) (unsupportedMessage operation t ts)"
  unfolding unsupportedMessage_def
  by (metis sublist_appendI append.assoc)

lemma unsupportedMessage_names_operation:
  "sublist operation (unsupportedMessage operation t ts)"
  unfolding unsupportedMessage_def
  by (metis sublist_appendI append.assoc)

lemma unsupportedMessage_lists_supported:
  assumes "u \<in> set ts"
  shows "sublist (supportedName u) (unsupportedMessage operation t ts)"
proof -
  from assms have "supportedName u \<in> set (map supportedName ts)" by simp
  then have "sublist (supportedName u) (join '', '' (map supportedName ts))"
    by (rule sublist_join)
  then show ?thesis
    unfolding unsupportedMessage_def by (intro sublist_appendL)
qed

lemma validateOperationSupport_unsupported:
  "type config \<notin> set ts \<Longrightarrow>
   validateOperationSupport config operation ts
     = Inl (Error (unsupportedMessage operation (type config) ts))"
  by (simp add: validateOperationSupport_def Let_def)

lemma validateOperationSupport_supported:
  "type config \<in> set ts \<Longrightarrow> validateOperationSupport config operation ts = Inr ()"
  by (simp add: validateOperationSupport_def Let_def)

lemma missingManagement_exact:
  "missingManagement config = map fst (filter (\<lambda>(n, f). absent (f config)) managementFields)"
  by (simp add: missingManagement_def managementFields_def)

lemma validate_ok:
  "hasManagementCapabilities config \<Longrightarrow> validateManagementCapabilities config = Inr ()"
  by (simp add: validateManagementCapabilities_def)

lemma bind_lift_ok: "bind_io (lift_io (Inr x)) f = f x"
  by (simp add: bind_io_def lift_io_def)

lemma http_delete_eq:
  "http_delete ax client u config s =
     (case ax (deleteRequest client u config) s of
        (Inr resp, s') \<Rightarrow> (Inr (data resp), s')
      | (Inl e, s') \<Rightarrow>
          if messageIncludes e ''aborted'' then (Inr (JObj []), s') else (Inl e, s'))"
  by (auto simp: http_delete_def catch_io_def bind_io_def return_io_def throw_io_def
      split: prod.splits sum.splits)

lemma messageIncludes_iff:
  "messageIncludes e sub \<longleftrightarrow> (\<exists>m. message e = Some m \<and> sublist sub m)"
  by (auto simp: messageIncludes_def str_includes_iff split: option.splits)

lemma serverlessClient_eq:
  "getInfluxHttpClient exampleRuntime serverlessFull True = serverlessClient"
  by (simp add: serverlessFull_def serverlessClient_def getInfluxHttpClient_def
        getManagementHost_def createInfluxClient_def newHttpClientService_def
        createAuthHeaders_def exampleRuntime_def orEmpty_def stripTrailingSlash_def)








lemma times_rounds:
  "times rt (JNum 9007199255) 1000000000 = JNum 9007199255000000512"
  by (simp add: times_def doubleOf_def roundNat_def excess.simps Let_def)








lemma currentName_display: "currentName t = displayName t"
  by (cases t) (simp_all add: currentName_def)

lemma supportedName_display: "supportedName = displayName"
proof
  fix t show "supportedName t = displayName t" by (cases t) simp_all
qed



section \<open>Capability validation\<close>

text \<open>
  C3. For every product type and every combination of present and absent fields,
  \<open>hasDataCapabilities\<close> is false exactly when one of the required fields of the
  product type is absent: \<open>cluster_id\<close> and \<open>token\<close> for Cloud Dedicated,
  \<open>url\<close> and \<open>token\<close> for every other type. A field is absent when it is
  \<^verbatim>\<open>undefined\<close> or the empty string, which is what the code tests.
\<close>

theorem hasDataCapabilities_false_iff:
  "(hasDataCapabilities config = False)
   \<longleftrightarrow> (\<exists>f \<in> set (dataRequired (type config)). absent (f config))"
  by (auto simp: hasDataCapabilities_def isValidConfig_def dataRequired_def)

theorem hasDataCapabilities_false_iff_witness:
  "hasDataCapabilities coreNoToken = False \<and> hasDataCapabilities coreFull = True
   \<and> hasDataCapabilities dedicatedData = True \<and> hasDataCapabilities dedicatedUrlOnly = False"
  using hasDataCapabilities_false_iff [of coreNoToken]
        hasDataCapabilities_false_iff [of coreFull]
        hasDataCapabilities_false_iff [of dedicatedData]
        hasDataCapabilities_false_iff [of dedicatedUrlOnly]
  by (simp add: coreNoToken_def coreFull_def dedicatedData_def dedicatedUrlOnly_def
        dataRequired_def truthyS_def)

text \<open>
  C1. A configuration of type Clustered is to have management capabilities exactly when
  \<open>cluster_id\<close>, \<open>account_id\<close> and \<open>management_token\<close> are all present:
  \<open>validateManagementCapabilities\<close> reports all three as required for Clustered, and
  the strategy shared with Cloud Dedicated puts both ids into every path. The code does
  not hold to it, since \<open>hasManagementCapabilities\<close> tests the management token only
  for Clustered. With only a management token configured the predicate is true and
  validation returns normally, so listing databases sends a request for the path with
  two \<^verbatim>\<open>undefined\<close> ids to an empty base URL, where Cloud Dedicated with the same
  fields throws the error that names \<open>cluster_id\<close> and \<open>account_id\<close>.
\<close>

theorem clustered_management_token_only:
  "type clusteredTokenOnly = Clustered
   \<and> absent (cluster_id clusteredTokenOnly)
   \<and> absent (account_id clusteredTokenOnly)
   \<and> hasManagementCapabilities clusteredTokenOnly = True
   \<and> validateManagementCapabilities clusteredTokenOnly = Inr ()
   \<and> validateManagementCapabilities (clusteredTokenOnly\<lparr>type := CloudDedicated\<rparr>)
       = Inl (Error ''Cloud Dedicated/Clustered management operations require: cluster_id, account_id'')
   \<and> listDatabases exampleRuntime recording clusteredTokenOnly []
       = (Inl (Error ''Failed to list databases: Unexpected response structure: {}''),
          [\<lparr>req_method = GET,
            req_client = \<lparr>baseURL = Some [], timeout = 30000,
                          headers = [(''Content-Type'', ''application/json''),
                                     (''Accept'', ''application/json''),
                                     (''Authorization'', ''Bearer mgmt'')]\<rparr>,
            req_url = ''/api/v0/accounts/undefined/clusters/undefined/databases'',
            req_data = JUndefined, req_headers = []\<rparr>])"
  by (simp add: clusteredTokenOnly_def hasManagementCapabilities_def
        validateManagementCapabilities_def missingManagement_def truthyS_def
        listDatabases_def bind_io_def lift_io_def listDatabasesCloudDedicated_def
        tryDatabase_def http_get_def catch_io_def return_io_def throw_io_def recording_def
        okResponse_def getInfluxHttpClient_def getManagementHost_def createInfluxClient_def
        newHttpClientService_def createAuthHeaders_def exampleRuntime_def orEmpty_def
        stripTrailingSlash_def dedicatedEndpoint_def tmpl_def databasesOfCloudDedicated_def
        possibleArray_def optChain_def jsOr_def handleDatabaseError_def Error_def)


section \<open>Endpoint resolution\<close>

text \<open>
  C2, as the code has it. For a configuration of type Cloud Dedicated, endpoint
  resolution is a total function of the configuration alone and has no error result.
  With \<open>cluster_id\<close> present the data host is \<^verbatim>\<open>https://{cluster_id}.a.influxdb.io\<close>;
  with \<open>cluster_id\<close> absent the data host falls back to \<open>url\<close>, so it is
  \<^verbatim>\<open>undefined\<close> only when \<open>url\<close> is. The management host is the fixed console
  origin, whatever the cluster id.
\<close>

theorem cloudDedicated_endpoints:
  assumes "type config = CloudDedicated"
  shows "(cluster_id config = Some cid \<and> cid \<noteq> []
            \<longrightarrow> getDataHost config = Some (''https://'' @ cid @ ''.a.influxdb.io''))
    \<and> (absent (cluster_id config) \<longrightarrow> getDataHost config = url config)
    \<and> getManagementHost config = Some ''https://console.influxdata.com''
    \<and> getManagementHost (config\<lparr>cluster_id := other\<rparr>) = getManagementHost config"
  using assms
  by (auto simp: getDataHost_def getManagementHost_def truthyS_def tmpl_def)

theorem cloudDedicated_endpoints_witness:
  "type dedicatedData = CloudDedicated
   \<and> getDataHost dedicatedData = Some ''https://abc123.a.influxdb.io''
   \<and> getManagementHost dedicatedData = Some ''https://console.influxdata.com''
   \<and> getManagementHost (dedicatedData\<lparr>cluster_id := None\<rparr>) = Some ''https://console.influxdata.com''
   \<and> type dedicatedUrlOnly = CloudDedicated
   \<and> getDataHost dedicatedUrlOnly = Some ''https://db.example.com''"
  using cloudDedicated_endpoints [of dedicatedData "''abc123''" None]
        cloudDedicated_endpoints [of dedicatedUrlOnly "''x''" None]
  by (simp add: dedicatedData_def dedicatedUrlOnly_def truthyS_def)

text \<open>
  C2 as stated fails in its last part: with \<open>cluster_id\<close> absent and \<open>url\<close> set,
  the resolved data host is the \<open>url\<close>, neither empty nor \<^verbatim>\<open>undefined\<close>.
\<close>

theorem cloudDedicated_data_host_counterexample:
  "type dedicatedUrlOnly = CloudDedicated
   \<and> absent (cluster_id dedicatedUrlOnly)
   \<and> getDataHost dedicatedUrlOnly \<noteq> None
   \<and> getDataHost dedicatedUrlOnly \<noteq> Some []
   \<and> getDataHost dedicatedUrlOnly = Some ''https://db.example.com''"
  by (simp add: dedicatedUrlOnly_def getDataHost_def truthyS_def)

section \<open>Operation allow-list\<close>

text \<open>
  C7. For every operation name, list of supported types and current product type,
  \<open>validateOperationSupport\<close> throws exactly when the current type is not in the
  list. The message it throws is
  \<^verbatim>\<open>Operation '<operation>' is not supported for <current>. Supported types: <list>\<close>,
  with the name of the current type and the names of all supported types, joined by
  commas; so it contains the operation, the name of the current type and the name of
  every supported type. Under a Core configuration,
  \<^verbatim>\<open>validateOperationSupport("update_database", [CloudDedicated, CloudServerless, Clustered])\<close>
  throws the message naming Core and the three supported types, and so does
  \<open>updateDatabase\<close>, before any request is sent.
\<close>

theorem validateOperationSupport_allow_list:
  "((\<exists>e. validateOperationSupport config operation ts = Inl e) \<longleftrightarrow> type config \<notin> set ts)
   \<and> (type config \<in> set ts \<longrightarrow> validateOperationSupport config operation ts = Inr ())
   \<and> (type config \<notin> set ts \<longrightarrow>
        validateOperationSupport config operation ts
          = Inl (Error (''Operation '' @ squote @ operation @ squote
                @ '' is not supported for '' @ displayName (type config)
                @ ''. Supported types: '' @ join '', '' (map displayName ts)))
        \<and> (\<exists>msg. validateOperationSupport config operation ts = Inl (Error msg)
             \<and> sublist operation msg
             \<and> sublist (displayName (type config)) msg
             \<and> (\<forall>t \<in> set ts. sublist (displayName t) msg)))
   \<and> (type config = Core \<longrightarrow>
        validateOperationSupport config ''update_database''
            [CloudDedicated, CloudServerless, Clustered]
          = Inl (Error (''Operation '' @ squote @ ''update_database'' @ squote
                @ '' is not supported for Core. Supported types: Cloud Dedicated, Cloud Serverless, Clustered''))
        \<and> (name \<noteq> [] \<longrightarrow>
             updateDatabase rt ax config name dbconfig s
               = (Inl (Error (''Operation '' @ squote @ ''update_database'' @ squote
                    @ '' is not supported for Core. Supported types: Cloud Dedicated, Cloud Serverless, Clustered'')), s)))"
proof (intro conjI impI)
  show "(\<exists>e. validateOperationSupport config operation ts = Inl e) \<longleftrightarrow> type config \<notin> set ts"
    by (auto simp: validateOperationSupport_def Let_def)
next
  assume "type config \<in> set ts"
  then show "validateOperationSupport config operation ts = Inr ()"
    by (rule validateOperationSupport_supported)
next
  assume out: "type config \<notin> set ts"
  let ?msg = "unsupportedMessage operation (type config) ts"
  have v: "validateOperationSupport config operation ts = Inl (Error ?msg)"
    using out by (rule validateOperationSupport_unsupported)
  then show "validateOperationSupport config operation ts
          = Inl (Error (''Operation '' @ squote @ operation @ squote
                @ '' is not supported for '' @ displayName (type config)
                @ ''. Supported types: '' @ join '', '' (map displayName ts)))"
    by (simp add: unsupportedMessage_def currentName_display supportedName_display)
  have "sublist operation ?msg"
    by (rule unsupportedMessage_names_operation)
  moreover have "sublist (displayName (type config)) ?msg"
    using unsupportedMessage_names_current[of "type config" operation ts]
    by (simp add: currentName_display)
  moreover have "\<forall>t \<in> set ts. sublist (displayName t) ?msg"
    using unsupportedMessage_lists_supported[of _ ts operation "type config"]
    by (simp add: supportedName_display)
  ultimately show "\<exists>msg. validateOperationSupport config operation ts = Inl (Error msg)
      \<and> sublist operation msg \<and> sublist (displayName (type config)) msg
      \<and> (\<forall>t \<in> set ts. sublist (displayName t) msg)"
    using v by blast
next
  assume core: "type config = Core"
  then show v: "validateOperationSupport config ''update_database''
            [CloudDedicated, CloudServerless, Clustered]
          = Inl (Error (''Operation '' @ squote @ ''update_database'' @ squote
                @ '' is not supported for Core. Supported types: Cloud Dedicated, Cloud Serverless, Clustered''))"
    by (simp add: validateOperationSupport_def Let_def unsupportedMessage_def currentName_def)
  assume "name \<noteq> []"
  then show "updateDatabase rt ax config name dbconfig s
               = (Inl (Error (''Operation '' @ squote @ ''update_database'' @ squote
                    @ '' is not supported for Core. Supported types: Cloud Dedicated, Cloud Serverless, Clustered'')), s)"
    by (simp add: updateDatabase_def v bind_io_def lift_io_def)
qed

theorem validateOperationSupport_allow_list_witness:
  "type coreFull = Core
   \<and> validateOperationSupport coreFull ''update_database''
        [CloudDedicated, CloudServerless, Clustered]
      = Inl (Error (''Operation '' @ squote @ ''update_database'' @ squote
            @ '' is not supported for Core. Supported types: Cloud Dedicated, Cloud Serverless, Clustered''))
   \<and> validateOperationSupport coreFull ''list_databases'' [Core, Enterprise] = Inr ()
   \<and> updateDatabase exampleRuntime offline coreFull ''db'' noConfig ()
      = (Inl (Error (''Operation '' @ squote @ ''update_database'' @ squote
            @ '' is not supported for Core. Supported types: Cloud Dedicated, Cloud Serverless, Clustered'')), ())
   \<and> validateOperationSupport (coreFull\<lparr>type := Enterprise\<rparr>) ''schema'' [CloudServerless]
      = Inl (Error (''Operation '' @ squote @ ''schema'' @ squote
            @ '' is not supported for Enterprise. Supported types: Cloud Serverless''))
   \<and> validateOperationSupport clusteredFull ''tokens'' [Core, Enterprise]
      = Inl (Error (''Operation '' @ squote @ ''tokens'' @ squote
            @ '' is not supported for Clustered. Supported types: Core, Enterprise''))
   \<and> validateOperationSupport dedicatedFull ''schema'' [CloudServerless]
      = Inl (Error (''Operation '' @ squote @ ''schema'' @ squote
            @ '' is not supported for Cloud Dedicated. Supported types: Cloud Serverless''))
   \<and> validateOperationSupport serverlessFull ''tokens'' [Core, Enterprise]
      = Inl (Error (''Operation '' @ squote @ ''tokens'' @ squote
            @ '' is not supported for Cloud Serverless. Supported types: Core, Enterprise''))"
  using validateOperationSupport_allow_list
          [of coreFull "''update_database''" "[CloudDedicated, CloudServerless, Clustered]"
              "''db''" exampleRuntime offline noConfig "()"]
        validateOperationSupport_allow_list
          [of coreFull "''list_databases''" "[Core, Enterprise]"
              "''db''" exampleRuntime offline noConfig "()"]
        validateOperationSupport_allow_list
          [of "coreFull\<lparr>type := Enterprise\<rparr>" "''schema''" "[CloudServerless]"
              "''db''" exampleRuntime offline noConfig "()"]
        validateOperationSupport_allow_list
          [of clusteredFull "''tokens''" "[Core, Enterprise]"
              "''db''" exampleRuntime offline noConfig "()"]
        validateOperationSupport_allow_list
          [of dedicatedFull "''schema''" "[CloudServerless]"
              "''db''" exampleRuntime offline noConfig "()"]
        validateOperationSupport_allow_list
          [of serverlessFull "''tokens''" "[Core, Enterprise]"
              "''db''" exampleRuntime offline noConfig "()"]
  by (simp add: coreFull_def clusteredFull_def dedicatedFull_def serverlessFull_def)


section \<open>Transport: tolerant delete\<close>

text \<open>
  C8. For every delete call of the transport: if the underlying request throws an
  error whose message contains \<^verbatim>\<open>aborted\<close>, the call returns the empty object
  instead of throwing; every other thrown error is thrown on unchanged.
\<close>

theorem http_delete_aborted:
  assumes "ax (deleteRequest client u config) s = (Inl e, s')"
  shows "((\<exists>m. message e = Some m \<and> sublist ''aborted'' m)
            \<longrightarrow> http_delete ax client u config s = (Inr (JObj []), s'))
       \<and> (\<not> (\<exists>m. message e = Some m \<and> sublist ''aborted'' m)
            \<longrightarrow> http_delete ax client u config s = (Inl e, s'))"
  using assms by (simp add: http_delete_eq messageIncludes_iff)

theorem http_delete_aborted_witness:
  "http_delete aborting (getInfluxHttpClient exampleRuntime coreFull False)
       ''/api/v3/configure/database?db=db1'' [] ()
     = (Inr (JObj []), ())
   \<and> http_delete offline (getInfluxHttpClient exampleRuntime coreFull False)
       ''/api/v3/configure/database?db=db1'' [] ()
     = (Inl connectionRefused, ())
   \<and> deleteDatabase exampleRuntime aborting coreFull ''db1'' () = (Inr True, ())"
  using http_delete_aborted [of aborting "getInfluxHttpClient exampleRuntime coreFull False"
          "''/api/v3/configure/database?db=db1''" "[]" "()" requestAborted "()"]
        http_delete_aborted [of offline "getInfluxHttpClient exampleRuntime coreFull False"
          "''/api/v3/configure/database?db=db1''" "[]" "()" connectionRefused "()"]
  apply (simp add: aborting_def offline_def throw_io_def requestAborted_def connectionRefused_def)
  apply (simp add: deleteDatabase_def coreFull_def bind_io_def lift_io_def
           validateManagementCapabilities_def hasManagementCapabilities_def truthyS_def
           deleteDatabaseCoreEnterprise_def tryDatabase_def catch_io_def http_delete_def
           throw_io_def return_io_def messageIncludes_def exampleRuntime_def)
  done

section \<open>Payloads and normalization\<close>

text \<open>
  C5. Creating a Cloud Dedicated database sends one POST request whose payload holds
  the name and, for \<open>maxTables\<close>, \<open>maxColumnsPerTable\<close> and
  \<open>retentionPeriod\<close>, the value the caller provided when it is defined and
  otherwise the default 500, 200 and 0: a provided value, zero included, is never
  replaced.
\<close>

theorem createDatabaseCloudDedicated_payload:
  "payloadCloudDedicated name config
     = JObj [(''name'', JStr name),
             (''maxTables'',
                JNum (case Option.bind config maxTables of Some v \<Rightarrow> v | None \<Rightarrow> 500)),
             (''maxColumnsPerTable'',
                JNum (case Option.bind config maxColumnsPerTable of Some v \<Rightarrow> v | None \<Rightarrow> 200)),
             (''retentionPeriod'',
                JNum (case Option.bind config retentionPeriod of Some v \<Rightarrow> v | None \<Rightarrow> 0))]
   \<and> createDatabaseCloudDedicated rt ax baseConfig name config s
     = (case ax \<lparr>req_method = POST, req_client = getInfluxHttpClient rt baseConfig True,
                 req_url = dedicatedEndpoint baseConfig,
                 req_data = payloadCloudDedicated name config, req_headers = []\<rparr> s of
          (Inr resp, s') \<Rightarrow> (Inr True, s')
        | (Inl e, s') \<Rightarrow>
            (Inl (handleDatabaseError rt e (''create database '' @ squote @ name @ squote)), s'))"
  by (auto simp: payloadCloudDedicated_def createDatabaseCloudDedicated_def tryDatabase_def
        http_post_def bind_io_def catch_io_def return_io_def throw_io_def
      split: option.splits prod.splits sum.splits)

theorem createDatabaseCloudDedicated_payload_witness:
  "createDatabase exampleRuntime recording dedicatedFull ''mydb'' None []
     = (Inr True,
        [\<lparr>req_method = POST,
          req_client = \<lparr>baseURL = Some ''https://console.influxdata.com'', timeout = 30000,
                        headers = [(''Content-Type'', ''application/json''),
                                   (''Accept'', ''application/json''),
                                   (''Authorization'', ''Bearer mgmt'')]\<rparr>,
          req_url = ''/api/v0/accounts/acc/clusters/abc123/databases'',
          req_data = JObj [(''name'', JStr ''mydb''), (''maxTables'', JNum 500),
                           (''maxColumnsPerTable'', JNum 200), (''retentionPeriod'', JNum 0)],
          req_headers = []\<rparr>])
   \<and> payloadCloudDedicated ''mydb''
        (Some (noConfig\<lparr>maxTables := Some 0, retentionPeriod := Some 7\<rparr>))
     = JObj [(''name'', JStr ''mydb''), (''maxTables'', JNum 0),
             (''maxColumnsPerTable'', JNum 200), (''retentionPeriod'', JNum 7)]"
  using createDatabaseCloudDedicated_payload
          [of "''mydb''" None exampleRuntime recording dedicatedFull "[]"]
        createDatabaseCloudDedicated_payload
          [of "''mydb''" "Some (noConfig\<lparr>maxTables := Some 0, retentionPeriod := Some 7\<rparr>)"
              exampleRuntime recording dedicatedFull "[]"]
  by (simp add: createDatabase_def dedicatedFull_def bind_io_def lift_io_def
        validateManagementCapabilities_def hasManagementCapabilities_def truthyS_def
        recording_def okResponse_def noConfig_def getInfluxHttpClient_def getManagementHost_def
        createInfluxClient_def newHttpClientService_def createAuthHeaders_def exampleRuntime_def
        orEmpty_def stripTrailingSlash_def dedicatedEndpoint_def tmpl_def)

text \<open>
  C9. When a Cloud Serverless database is created, a retention period of exactly 0
  nanoseconds is treated as an omitted one: the payload, and so the whole call, is the
  same as with no retention period, and \<^verbatim>\<open>retentionRules[0].everySeconds\<close> is the
  thirty-day default 2592000, not 0.
\<close>

theorem createDatabaseCloudServerless_zero_retention:
  "createEverySeconds (Some (config\<lparr>retentionPeriod := Some 0\<rparr>)) = 2592000
   \<and> createEverySeconds (Some (config\<lparr>retentionPeriod := None\<rparr>)) = 2592000
   \<and> createEverySeconds None = 2592000
   \<and> payloadCloudServerless name orgID (Some (config\<lparr>retentionPeriod := Some 0\<rparr>))
      = payloadCloudServerless name orgID (Some (config\<lparr>retentionPeriod := None\<rparr>))
   \<and> optChain (optChain (propOf (payloadCloudServerless name orgID
                                    (Some (config\<lparr>retentionPeriod := Some 0\<rparr>)))
                   ''retentionRules'') ''0'') ''everySeconds'' = JNum 2592000
   \<and> createDatabaseCloudServerless rt ax baseConfig name
        (Some (config\<lparr>retentionPeriod := Some 0\<rparr>))
      = createDatabaseCloudServerless rt ax baseConfig name
        (Some (config\<lparr>retentionPeriod := None\<rparr>))"
  by (simp add: createEverySeconds_def payloadCloudServerless_def
        createDatabaseCloudServerless_def optChain_def expireRule_def)

theorem createDatabaseCloudServerless_zero_retention_witness:
  "createDatabase exampleRuntime serverless serverlessFull ''mydb''
       (Some (noConfig\<lparr>retentionPeriod := Some 0\<rparr>)) []
     = (Inr True,
        [\<lparr>req_method = GET, req_client = serverlessClient, req_url = ''/api/v2/orgs'',
          req_data = JUndefined, req_headers = []\<rparr>,
         \<lparr>req_method = POST, req_client = serverlessClient, req_url = ''/api/v2/buckets'',
          req_data = JObj [(''name'', JStr ''mydb''), (''orgID'', JStr ''org1''),
                           (''retentionRules'',
                              JArr [JObj [(''type'', JStr ''expire''),
                                          (''everySeconds'', JNum 2592000)]])],
          req_headers = []\<rparr>])"
  using createDatabaseCloudServerless_zero_retention
          [of noConfig "''mydb''" "JStr ''org1''" exampleRuntime serverless serverlessFull]
  apply (simp add: createDatabase_def bind_io_def lift_io_def validateManagementCapabilities_def
           hasManagementCapabilities_def)
  apply (simp add: createDatabaseCloudServerless_def serverlessClient_eq tryDatabase_def)
  apply (simp add: serverlessFull_def truthyS_def noConfig_def http_get_def http_post_def
           bind_io_def catch_io_def return_io_def lift_io_def serverless_def okResponse_def
           orgIDOf_def optChain_def gt0_def getProp_def payloadCloudServerless_def
           createEverySeconds_def expireRule_def)
  done







section \<open>Dispatch of Clustered\<close>

text \<open>
  C10, as the code has it. For every database operation (list, create, update, delete),
  a configuration of type Clustered in which \<open>cluster_id\<close>, \<open>account_id\<close> and
  \<open>management_token\<close> are all present is dispatched to the same strategy as Cloud
  Dedicated: the same functions, hence the same payload construction and response
  normalization, the same path \<^verbatim>\<open>/api/v0/accounts/{account_id}/clusters/{cluster_id}/databases\<close>,
  and the header \<^verbatim>\<open>Authorization: Bearer <management_token>\<close>, which is sent
  unless the token is blank. The two product types differ in the host the requests go
  to: \<open>url\<close> for Clustered and the console origin for Cloud Dedicated.
\<close>

theorem clustered_dispatch:
  assumes "type config = Clustered \<or> type config = CloudDedicated"
      and "cluster_id config = Some cid" and "cid \<noteq> []"
      and "account_id config = Some acc" and "acc \<noteq> []"
      and "management_token config = Some mt" and "mt \<noteq> []"
  shows "listDatabases rt ax config = listDatabasesCloudDedicated rt ax config
    \<and> (name \<noteq> [] \<longrightarrow>
         createDatabase rt ax config name dbconfig
           = createDatabaseCloudDedicated rt ax config name dbconfig
       \<and> updateDatabase rt ax config name upd
           = updateDatabaseCloudDedicated rt ax config name upd
       \<and> deleteDatabase rt ax config name = deleteDatabaseCloudDedicated rt ax config name)
    \<and> dedicatedEndpoint config
        = ''/api/v0/accounts/'' @ acc @ ''/clusters/'' @ cid @ ''/databases''
    \<and> headers (getInfluxHttpClient rt config True)
        = [(''Content-Type'', ''application/json''), (''Accept'', ''application/json'')]
          @ (if trim rt mt \<noteq> [] then [(''Authorization'', ''Bearer '' @ mt)] else [])
    \<and> baseURL (getInfluxHttpClient rt config True)
        = (if type config = CloudDedicated then Some ''https://console.influxdata.com''
           else Some (stripTrailingSlash (orEmpty (url config))))"
proof (intro conjI impI)
  have h: "hasManagementCapabilities config"
    using assms by (auto simp: hasManagementCapabilities_def truthyS_def)
  note v = validate_ok[OF h]
  show "listDatabases rt ax config = listDatabasesCloudDedicated rt ax config"
    using assms(1) by (auto simp: listDatabases_def v bind_lift_ok)
  show "createDatabase rt ax config name dbconfig
           = createDatabaseCloudDedicated rt ax config name dbconfig" if "name \<noteq> []"
    using assms(1) that by (auto simp: createDatabase_def v bind_lift_ok)
  show "updateDatabase rt ax config name upd
           = updateDatabaseCloudDedicated rt ax config name upd" if "name \<noteq> []"
    using assms(1) that
    by (auto simp: updateDatabase_def v bind_lift_ok validateOperationSupport_def)
  show "deleteDatabase rt ax config name = deleteDatabaseCloudDedicated rt ax config name"
    if "name \<noteq> []"
    using assms(1) that by (auto simp: deleteDatabase_def v bind_lift_ok)
  show "dedicatedEndpoint config
        = ''/api/v0/accounts/'' @ acc @ ''/clusters/'' @ cid @ ''/databases''"
    using assms by (simp add: dedicatedEndpoint_def tmpl_def)
  show "headers (getInfluxHttpClient rt config True)
        = [(''Content-Type'', ''application/json''), (''Accept'', ''application/json'')]
          @ (if trim rt mt \<noteq> [] then [(''Authorization'', ''Bearer '' @ mt)] else [])"
    using assms
    by (auto simp: getInfluxHttpClient_def createInfluxClient_def newHttpClientService_def
          createAuthHeaders_def orEmpty_def)
  show "baseURL (getInfluxHttpClient rt config True)
        = (if type config = CloudDedicated then Some ''https://console.influxdata.com''
           else Some (stripTrailingSlash (orEmpty (url config))))"
    using assms(1)
    by (auto simp: getInfluxHttpClient_def createInfluxClient_def newHttpClientService_def
          getManagementHost_def orEmpty_def stripTrailingSlash_def)
qed

theorem clustered_dispatch_witness:
  "createDatabase exampleRuntime recording clusteredFull ''mydb'' None []
     = (Inr True,
        [\<lparr>req_method = POST,
          req_client = \<lparr>baseURL = Some ''https://db.example.com'', timeout = 30000,
                        headers = [(''Content-Type'', ''application/json''),
                                   (''Accept'', ''application/json''),
                                   (''Authorization'', ''Bearer mgmt'')]\<rparr>,
          req_url = ''/api/v0/accounts/acc/clusters/abc123/databases'',
          req_data = JObj [(''name'', JStr ''mydb''), (''maxTables'', JNum 500),
                           (''maxColumnsPerTable'', JNum 200), (''retentionPeriod'', JNum 0)],
          req_headers = []\<rparr>])
   \<and> headers (getInfluxHttpClient exampleRuntime clusteredFull True)
       = [(''Content-Type'', ''application/json''), (''Accept'', ''application/json''),
          (''Authorization'', ''Bearer mgmt'')]"
proof -
  have t: "type clusteredFull = Clustered \<or> type clusteredFull = CloudDedicated"
    by (simp add: clusteredFull_def)
  have c: "cluster_id clusteredFull = Some ''abc123''" and a: "account_id clusteredFull = Some ''acc''"
    and m: "management_token clusteredFull = Some ''mgmt''"
    by (simp_all add: clusteredFull_def)
  note d = clustered_dispatch [OF t c _ a _ m, where name = "''mydb''" and rt = exampleRuntime
            and ax = recording and dbconfig = None]
  have "createDatabase exampleRuntime recording clusteredFull ''mydb'' None
          = createDatabaseCloudDedicated exampleRuntime recording clusteredFull ''mydb'' None"
    using d by simp
  moreover have "headers (getInfluxHttpClient exampleRuntime clusteredFull True)
       = [(''Content-Type'', ''application/json''), (''Accept'', ''application/json''),
          (''Authorization'', ''Bearer mgmt'')]"
    using d by (simp add: exampleRuntime_def)
  ultimately show ?thesis
    by (simp add: createDatabaseCloudDedicated_def tryDatabase_def http_post_def bind_io_def
          catch_io_def return_io_def recording_def okResponse_def clusteredFull_def
          getInfluxHttpClient_def getManagementHost_def createInfluxClient_def
          newHttpClientService_def createAuthHeaders_def exampleRuntime_def orEmpty_def
          stripTrailingSlash_def dedicatedEndpoint_def tmpl_def payloadCloudDedicated_def)
qed

text \<open>
  C10 as stated fails: with the same fields, all present, listing databases differs
  between the two product types. Against a backend that answers at the console origin
  only, the Clustered configuration is refused the connection at its \<open>url\<close> while
  Cloud Dedicated lists the database.
\<close>

theorem clustered_dispatch_counterexample:
  "listDatabases exampleRuntime consoleOnly clusteredFull ()
     = (Inl (Error ''Connection refused: Check if InfluxDB is running and URL is correct''), ())
   \<and> listDatabases exampleRuntime consoleOnly (clusteredFull\<lparr>type := CloudDedicated\<rparr>) ()
     = (Inr [JObj [(''name'', JStr ''db1'')]], ())
   \<and> baseURL (getInfluxHttpClient exampleRuntime clusteredFull True)
     = Some ''https://db.example.com''
   \<and> baseURL (getInfluxHttpClient exampleRuntime (clusteredFull\<lparr>type := CloudDedicated\<rparr>) True)
     = Some ''https://console.influxdata.com''"
  by (simp add: listDatabases_def bind_io_def lift_io_def validateManagementCapabilities_def
        hasManagementCapabilities_def clusteredFull_def truthyS_def
        listDatabasesCloudDedicated_def tryDatabase_def http_get_def catch_io_def return_io_def
        throw_io_def consoleOnly_def okResponse_def connectionRefused_def
        getInfluxHttpClient_def getManagementHost_def createInfluxClient_def
        newHttpClientService_def createAuthHeaders_def exampleRuntime_def orEmpty_def
        stripTrailingSlash_def dedicatedEndpoint_def tmpl_def databasesOfCloudDedicated_def
        databaseInfoCloudDedicated_def handleDatabaseError_def Error_def)

end
